theory Spec2Isabelle
  imports Complex_Main
begin

section \<open>Values, objects and the object store\<close>

text \<open>
  A seeder record is a JavaScript object: a finite sequence of properties in enumeration
  order (for column names, which are not integer-like, that is insertion order). The
  records are shared by reference between the generator, \<open>seed\<close> and the caller, and
  \<open>seed\<close> writes to them in place, so they live in a store indexed by references.
  The TypeScript types make every element of \<open>T[]\<close> an object, hence the store is total.
  The numbers stored are integer-valued (identifiers and row counts are).
\<close>

datatype val = VNum int | VStr string | VNull

type_synonym obj = "(string \<times> val) list"

type_synonym ref = nat

type_synonym store = "ref \<Rightarrow> obj"

text \<open>\<^verbatim>\<open>Object.keys(o)\<close> and \<^verbatim>\<open>Object.values(o)\<close>.\<close>

definition object_keys :: "obj \<Rightarrow> string list" where
  "object_keys ob = map fst ob"

definition object_values :: "obj \<Rightarrow> val list" where
  "object_values ob = map snd ob"

text \<open>
  The assignment \<^verbatim>\<open>o[k] = v\<close>: an existing property keeps its position, a new one is
  appended.
\<close>

fun set_prop :: "obj \<Rightarrow> string \<Rightarrow> val \<Rightarrow> obj" where
  "set_prop [] k v = [(k, v)]"
| "set_prop ((k', v') # ps) k v =
     (if k' = k then (k, v) # ps else (k', v') # set_prop ps k v)"

text \<open>The read \<^verbatim>\<open>o[k]\<close>; \<open>None\<close> stands for \<^verbatim>\<open>undefined\<close>.\<close>

definition get_prop :: "obj \<Rightarrow> string \<Rightarrow> val option" where
  "get_prop ob k = map_of ob k"

text \<open>
  A JavaScript number is an IEEE-754 double: 53 significant bits. Every integer of
  magnitude up to \<open>2 ^ 53\<close> is a double; a larger one is rounded to the nearest integer
  with 53 significant bits, ties to the even significand. \<open>bit_length\<close> is the number of
  binary digits.
\<close>

function bit_length :: "int \<Rightarrow> nat" where
  "bit_length n = (if n \<le> 0 then 0 else Suc (bit_length (n div 2)))"
  by pat_completeness auto
termination
  by (relation "measure nat") auto

declare bit_length.simps [simp del]

definition round_double :: "int \<Rightarrow> int" where
  "round_double x =
     (let m = \<bar>x\<bar>
      in if m \<le> 2 ^ 53 then x
         else (let q = 2 ^ (bit_length m - 53);
                   d = m div q;
                   r = m mod q;
                   n = (if 2 * r < q \<or> (2 * r = q \<and> even d) then d * q else (d + 1) * q)
               in sgn x * n))"

text \<open>
  \<^verbatim>\<open>a + b\<close> on integer-valued numbers: the exact sum, rounded. (An identifier plus an array
  index stays far below the overflow threshold of the format.)
\<close>

definition js_add :: "int \<Rightarrow> int \<Rightarrow> int" where
  "js_add a b = round_double (a + b)"

text \<open>\<^verbatim>\<open>xs.join(sep)\<close> on an array of strings.\<close>

fun join :: "string \<Rightarrow> string list \<Rightarrow> string" where
  "join sep [] = []"
| "join sep [x] = x"
| "join sep (x # y # ys) = x @ sep @ join sep (y # ys)"

text \<open>
  Errors are values. \<open>FailedToInsert n\<close> is the
  \<^verbatim>\<open>new Error(`Failed to insert ${records.length} records`)\<close> of \<open>seed\<close> (the
  insert-count mismatch); \<open>Thrown msg\<close> is any error raised by a collaborator that is
  not part of these sources (the database service, a generator, the cart service).
\<close>

datatype error = FailedToInsert nat | TypeError | Thrown string

section \<open>GameService.getGames: the statements it builds\<close>

text \<open>
  \<open>getGames\<close> reads the options only to build two statements and their parameter lists
  (the page query and the count query); both are sent on one connection inside a
  \<^verbatim>\<open>try\<close>/\<^verbatim>\<open>finally\<close>. The model is that construction. Numbers are rationals, so that
  prices with decimals are inputs; an optional field that is left out is \<open>None\<close>. The
  field \<^verbatim>\<open>sort\<close> of the options is \<open>sortDir\<close> here.
\<close>

type_synonym number = rat

record GetGamesOptions =
  page :: number
  limit :: number
  sortBy :: "string option"
  sortDir :: "string option"
  tags :: "number list option"
  minPrice :: "number option"
  maxPrice :: "number option"

text \<open>The three variables the filters update.\<close>

record filters =
  whereClause :: string
  whereClauseValues :: "number list"
  tagJoin :: string

text \<open>\<^verbatim>\<open>whereClause += whereClause ? " AND " : "WHERE "\<close>: the empty string is falsy.\<close>

definition where_or_and :: "string \<Rightarrow> string" where
  "where_or_and clause = clause @ (if clause \<noteq> [] then '' AND '' else ''WHERE '')"

text \<open>\<^verbatim>\<open>if (options.tags && options.tags.length > 0)\<close>.\<close>

definition tags_filter :: "GetGamesOptions \<Rightarrow> filters \<Rightarrow> filters" where
  "tags_filter options f =
     (case tags options of
        None \<Rightarrow> f
      | Some ts \<Rightarrow>
          if length ts > 0
          then f\<lparr>tagJoin := ''JOIN games_tags gt ON g.id = gt.gameId'',
                 whereClause := where_or_and (whereClause f) @
                    ''gt.tagId IN ('' @ join '','' (map (\<lambda>_. ''?'') ts) @ '')'',
                 whereClauseValues := whereClauseValues f @ ts\<rparr>
          else f)"

text \<open>
  \<^verbatim>\<open>if (options.minPrice)\<close> and \<^verbatim>\<open>if (options.maxPrice)\<close>: \<^verbatim>\<open>undefined\<close> and the number
  zero are falsy.
\<close>

definition minPrice_filter :: "GetGamesOptions \<Rightarrow> filters \<Rightarrow> filters" where
  "minPrice_filter options f =
     (case minPrice options of
        None \<Rightarrow> f
      | Some m \<Rightarrow>
          if m \<noteq> 0
          then f\<lparr>whereClause := where_or_and (whereClause f) @ ''g.price >= ?'',
                 whereClauseValues := whereClauseValues f @ [m]\<rparr>
          else f)"

definition maxPrice_filter :: "GetGamesOptions \<Rightarrow> filters \<Rightarrow> filters" where
  "maxPrice_filter options f =
     (case maxPrice options of
        None \<Rightarrow> f
      | Some m \<Rightarrow>
          if m \<noteq> 0
          then f\<lparr>whereClause := where_or_and (whereClause f) @ ''g.price <= ?'',
                 whereClauseValues := whereClauseValues f @ [m]\<rparr>
          else f)"

definition getGames_filters :: "GetGamesOptions \<Rightarrow> filters" where
  "getGames_filters options =
     maxPrice_filter options
       (minPrice_filter options
          (tags_filter options \<lparr>whereClause = [], whereClauseValues = [], tagJoin = []\<rparr>))"

definition sortByQuery :: "GetGamesOptions \<Rightarrow> string" where
  "sortByQuery options =
     (let dir = (if sortDir options = Some ''desc'' then ''DESC'' else ''ASC'')
      in case sortBy options of
           None \<Rightarrow> ''ORDER BY g.name '' @ dir
         | Some col \<Rightarrow>
             if col \<noteq> [] then ''ORDER BY g.'' @ col @ '' '' @ dir
             else ''ORDER BY g.name '' @ dir)"

text \<open>The text of \<open>getGameBaseQuery\<close> (layout whitespace normalised, as in all statements).\<close>

definition getGameBaseQuery :: string where
  "getGameBaseQuery =
     ''SELECT g.id, g.sku, g.name, g.thumbnail, g.description, g.price, '' @
     ''COALESCE((SELECT JSON_ARRAYAGG(gi.imageUrl) FROM game_images gi '' @
     ''WHERE gi.gameId = g.id), JSON_ARRAY()) AS images, '' @
     ''COALESCE((SELECT JSON_ARRAYAGG(t.value) FROM games_tags gt '' @
     ''JOIN tags t ON gt.tagId = t.id WHERE gt.gameId = g.id), JSON_ARRAY()) AS tags '' @
     ''FROM games g''"

text \<open>The page query with its parameters, and the count query with its parameters.\<close>

definition getGames_query :: "GetGamesOptions \<Rightarrow> string \<times> number list" where
  "getGames_query options =
     (let f = getGames_filters options;
          offset = (page options - 1) * limit options
      in (join '' '' [getGameBaseQuery, tagJoin f, whereClause f, ''GROUP BY g.id'',
                      sortByQuery options, ''LIMIT ?'', ''OFFSET ?''],
          whereClauseValues f @ [limit options, offset]))"

definition getGames_countQuery :: "GetGamesOptions \<Rightarrow> string \<times> number list" where
  "getGames_countQuery options =
     (let f = getGames_filters options
      in (join '' '' [''SELECT COUNT(DISTINCT g.id) AS totalCount FROM games g'',
                      tagJoin f, whereClause f],
          whereClauseValues f))"

section \<open>CartPageComponent\<close>

text \<open>
  The component holds the item list and, once connected, a shadow root that \<open>render\<close>
  fills from the items. \<^verbatim>\<open>CartService\<close> is an external collaborator and is taken as a
  parameter: each call resolves (\<open>None\<close>) or rejects with an error. The calls made and the
  \<^verbatim>\<open>console.error\<close> lines are recorded in order. One handler runs at a time.
\<close>

record CartItem =
  gameId :: int
  name :: string
  price :: rat
  quantity :: int

record cart_service =
  deleteCartItem :: "int \<Rightarrow> error option"
  updateCart :: "CartItem list \<Rightarrow> error option"

datatype cart_event =
    DeleteCartItemCall int
  | UpdateCartCall "CartItem list"
  | ConsoleError string error

text \<open>
  What \<open>render\<close> shows: one row per item, then the total with the checkout button, or
  the empty-cart message when there is no item.
\<close>

datatype footer = Total rat | EmptyCart

record view =
  rows :: "CartItem list"
  foot :: footer

record cart_page =
  items :: "CartItem list"
  shadowRoot :: "view option"
  events :: "cart_event list"

definition view_of :: "CartItem list \<Rightarrow> view" where
  "view_of its =
     \<lparr>rows = its,
      foot = (if length its > 0
              then Total (foldl (\<lambda>sum item. sum + price item * of_int (quantity item)) 0 its)
              else EmptyCart)\<rparr>"

text \<open>\<^verbatim>\<open>if (!this.shadowRoot) return;\<close> and then the content is rebuilt from the items.\<close>

definition render :: "cart_page \<Rightarrow> cart_page" where
  "render p =
     (case shadowRoot p of
        None \<Rightarrow> p
      | Some _ \<Rightarrow> p\<lparr>shadowRoot := Some (view_of (items p))\<rparr>)"

definition updateBackendCart :: "cart_service \<Rightarrow> cart_page \<Rightarrow> cart_page" where
  "updateBackendCart svc p =
     (let p1 = p\<lparr>events := events p @ [UpdateCartCall (items p)]\<rparr>
      in case updateCart svc (items p) of
           None \<Rightarrow> p1
         | Some e \<Rightarrow>
             p1\<lparr>events := events p1 @
                   [ConsoleError ''Fout bij bijwerken van winkelwagen:'' e]\<rparr>)"

text \<open>
  \<open>removeItem\<close>: the item is read and spliced out before the \<^verbatim>\<open>try\<close>. An index past the
  end reads \<^verbatim>\<open>undefined\<close> and splices nothing, and \<^verbatim>\<open>item.gameId\<close> then throws a
  TypeError inside the \<^verbatim>\<open>try\<close>. The index comes from \<^verbatim>\<open>forEach\<close> and is never negative.
\<close>

definition removeItem :: "cart_service \<Rightarrow> nat \<Rightarrow> cart_page \<Rightarrow> cart_page" where
  "removeItem svc index p =
     (let item = (if index < length (items p) then Some (items p ! index) else None);
          p1 = p\<lparr>items := take index (items p) @ drop (Suc index) (items p)\<rparr>;
          p2 = (case item of
                  None \<Rightarrow>
                    p1\<lparr>events := events p1 @
                      [ConsoleError ''Fout bij verwijderen van item uit winkelwagen:'' TypeError]\<rparr>
                | Some it \<Rightarrow>
                    (let p1' = p1\<lparr>events := events p1 @ [DeleteCartItemCall (gameId it)]\<rparr>
                     in case deleteCartItem svc (gameId it) of
                          None \<Rightarrow> p1'
                        | Some e \<Rightarrow>
                            p1'\<lparr>events := events p1' @
                              [ConsoleError ''Fout bij verwijderen van item uit winkelwagen:'' e]\<rparr>))
      in render (updateBackendCart svc p2))"

text \<open>
  What the backend has been told: the calls the cart service received, without the console
  lines. The backend has accepted the local cart when the last call it received is
  \<open>updateCart\<close> with exactly the local item list, and that call resolved.
\<close>

fun is_backend_call :: "cart_event \<Rightarrow> bool" where
  "is_backend_call (ConsoleError msg e) = False"
| "is_backend_call (DeleteCartItemCall gid) = True"
| "is_backend_call (UpdateCartCall its) = True"

definition backend_accepted_local :: "cart_service \<Rightarrow> cart_page \<Rightarrow> bool" where
  "backend_accepted_local svc p =
     (case rev (filter is_backend_call (events p)) of
        UpdateCartCall its # _ \<Rightarrow> its = items p \<and> updateCart svc its = None
      | _ \<Rightarrow> False)"

section \<open>The database service and the observable effects\<close>

record ResultSetHeader =
  affectedRows :: nat
  insertId :: int

text \<open>
  \<^verbatim>\<open>DatabaseService\<close> is an external collaborator and is taken as a parameter:
  \<open>openConnection\<close> either yields a connection (\<open>None\<close>) or rejects, and \<open>query\<close>
  answers a statement and its bound value tuples with a result header or rejects.
\<close>

record db_service =
  openConnection :: "error option"
  query :: "string \<Rightarrow> val list list \<Rightarrow> error + ResultSetHeader"

text \<open>The console lines of the seeder, without the colour escapes.\<close>

datatype message =
    NoRecordsToSeed string
  | SeedingRecords string
  | SuccessfullySeeded nat

text \<open>
  What a call does to the outside is recorded in order: acquiring the connection, each
  statement sent on it with its value tuples, releasing it, and console output.
\<close>

datatype event =
    Open
  | Query string "val list list"
  | Release
  | ConsoleLog message

record world =
  heap :: store
  trace :: "event list"

definition emit :: "event \<Rightarrow> world \<Rightarrow> world" where
  "emit e w = w\<lparr>trace := trace w @ [e]\<rparr>"

section \<open>Seeder\<close>

text \<open>
  \<^verbatim>\<open>getRecords(count, seederRecords)\<close> is abstract. A generator receives the count and the
  upstream groups (arrays of references), may allocate and write objects, and returns the
  array of generated records or throws.
\<close>

type_synonym generator = "int \<Rightarrow> ref list list \<Rightarrow> store \<Rightarrow> (error + ref list) \<times> store"

text \<open>
  A concrete seeder: the table name, the mode flag, its \<open>getRecords\<close>, and its override
  of \<open>getRecordsDev\<close> if the subclass has one.
\<close>

record seeder =
  table :: string
  devMode :: bool
  getRecords :: generator
  getRecordsDev_override :: "generator option"

text \<open>The base class's \<open>getRecordsDev\<close> returns \<^verbatim>\<open>this.getRecords(count, seederRecords)\<close>.\<close>

definition getRecordsDev :: "seeder \<Rightarrow> generator" where
  "getRecordsDev s =
     (case getRecordsDev_override s of
        None \<Rightarrow> getRecords s
      | Some g \<Rightarrow> g)"

text \<open>The generator chosen by \<^verbatim>\<open>this._devMode ? getRecordsDev : getRecords\<close>.\<close>

definition generate :: "seeder \<Rightarrow> generator" where
  "generate s = (if devMode s then getRecordsDev s else getRecords s)"

text \<open>The statement text of the bulk insert (layout whitespace normalised).\<close>

definition insert_sql :: "string \<Rightarrow> string list \<Rightarrow> string" where
  "insert_sql t columns = ''INSERT INTO `'' @ t @ ''` ('' @ join '', '' columns @ '') VALUES ?''"

text \<open>
  The loop \<^verbatim>\<open>for (i = 0; i < records.length; i++) records[i].id = result.insertId + i\<close>,
  started at index \<open>i\<close>.
\<close>

fun assign_ids :: "int \<Rightarrow> nat \<Rightarrow> ref list \<Rightarrow> store \<Rightarrow> store" where
  "assign_ids start i [] h = h"
| "assign_ids start i (r # rs) h =
     assign_ids start (Suc i) rs (h(r := set_prop (h r) ''id'' (VNum (js_add start (int i)))))"

text \<open>
  The body of the \<^verbatim>\<open>try\<close> block of \<open>seed\<close>, for a batch whose first record is \<open>first\<close>.
\<close>

definition seed_try ::
  "seeder \<Rightarrow> db_service \<Rightarrow> ref \<Rightarrow> ref list \<Rightarrow> world \<Rightarrow> (error + ref list) \<times> world" where
  "seed_try s db first records w =
     (let w1 = emit (ConsoleLog (SeedingRecords (table s))) w;
          columns = object_keys (heap w1 first);
          vals = map (\<lambda>record. object_values (heap w1 record)) records;
          w2 = emit (Query (insert_sql (table s) columns) vals) w1
      in case query db (insert_sql (table s) columns) vals of
           Inl e \<Rightarrow> (Inl e, w2)
         | Inr result \<Rightarrow>
             if affectedRows result \<noteq> length records
             then (Inl (FailedToInsert (length records)), w2)
             else (Inr records,
                   emit (ConsoleLog (SuccessfullySeeded (length records)))
                     (w2\<lparr>heap := assign_ids (insertId result) 0 records (heap w2)\<rparr>)))"

text \<open>
  \<open>seed\<close>: the connection is opened first; the generator runs and the empty batch
  returns before the \<^verbatim>\<open>try\<close>; the \<^verbatim>\<open>finally\<close> releases the connection after the
  \<^verbatim>\<open>try\<close> block, whatever its outcome.
\<close>

definition seed ::
  "seeder \<Rightarrow> db_service \<Rightarrow> int \<Rightarrow> ref list list \<Rightarrow> world \<Rightarrow> (error + ref list) \<times> world" where
  "seed s db count seederRecords w =
     (case openConnection db of
        Some e \<Rightarrow> (Inl e, w)
      | None \<Rightarrow>
          (let w1 = emit Open w;
               (res, h) = generate s count seederRecords (heap w1);
               w2 = w1\<lparr>heap := h\<rparr>
           in case res of
                Inl e \<Rightarrow> (Inl e, w2)
              | Inr records \<Rightarrow>
                  (case records of
                     [] \<Rightarrow> (Inr [], emit (ConsoleLog (NoRecordsToSeed (table s))) w2)
                   | first # _ \<Rightarrow>
                       (let (r, w3) = seed_try s db first records w2
                        in (r, emit Release w3)))))"

text \<open>
  \<open>truncate\<close>: three statements in a \<^verbatim>\<open>try\<close> block, each awaited before the next, and
  the release in the \<^verbatim>\<open>finally\<close>.
\<close>

definition truncate :: "seeder \<Rightarrow> db_service \<Rightarrow> world \<Rightarrow> (error + unit) \<times> world" where
  "truncate s db w =
     (case openConnection db of
        Some e \<Rightarrow> (Inl e, w)
      | None \<Rightarrow>
          (let w0 = emit Open w;
               w1 = emit (Query ''SET FOREIGN_KEY_CHECKS = 0'' []) w0
           in case query db ''SET FOREIGN_KEY_CHECKS = 0'' [] of
                Inl e \<Rightarrow> (Inl e, emit Release w1)
              | Inr _ \<Rightarrow>
                  (let w2 = emit (Query (''TRUNCATE TABLE `'' @ table s @ ''`'') []) w1
                   in case query db (''TRUNCATE TABLE `'' @ table s @ ''`'') [] of
                        Inl e \<Rightarrow> (Inl e, emit Release w2)
                      | Inr _ \<Rightarrow>
                          (let w3 = emit (Query ''SET FOREIGN_KEY_CHECKS = 1'' []) w2
                           in case query db ''SET FOREIGN_KEY_CHECKS = 1'' [] of
                                Inl e \<Rightarrow> (Inl e, emit Release w3)
                              | Inr _ \<Rightarrow> (Inr (), emit Release w3)))))"

section \<open>Observations and sample inputs\<close>

text \<open>The statements sent to the database in a trace, with their value tuples.\<close>

definition queries :: "event list \<Rightarrow> (string \<times> val list list) list" where
  "queries evs = concat (map (\<lambda>e. case e of Query sql vals \<Rightarrow> [(sql, vals)] | _ \<Rightarrow> []) evs)"

text \<open>
  A value tuple holds an object's values positionally for a column list: it is as long as
  the list, and every property of the object is found in the tuple at the position of its
  column.
\<close>

definition positional :: "string list \<Rightarrow> val list \<Rightarrow> obj \<Rightarrow> bool" where
  "positional columns tuple ob \<longleftrightarrow>
     length tuple = length columns \<and>
     (\<forall>k \<in> set (object_keys ob). map_of (zip columns tuple) k = map_of ob k)"

text \<open>
  A store with four game records; the last one lists the same two columns in the other
  order.
\<close>

definition example_store :: store where
  "example_store =
     (\<lambda>_. [])
       (0 := [(''name'', VStr ''Alpha''), (''price'', VNum 10)],
        1 := [(''name'', VStr ''Beta''), (''price'', VNum 20)],
        2 := [(''name'', VStr ''Gamma''), (''price'', VNum 30)],
        3 := [(''price'', VNum 40), (''name'', VStr ''Delta'')])"

definition example_world :: world where
  "example_world = \<lparr>heap = example_store, trace = []\<rparr>"

text \<open>A generator with a fixed data set, whatever the count (a lookup-table seeder).\<close>

definition fixed_generator :: "ref list \<Rightarrow> generator" where
  "fixed_generator rs count groups h = (Inr rs, h)"


definition throwing_generator :: generator where
  "throwing_generator count groups h = (Inl (Thrown ''generator failed''), h)"

definition games_seeder :: "generator \<Rightarrow> seeder" where
  "games_seeder g =
     \<lparr>table = ''games'', devMode = False, getRecords = g, getRecordsDev_override = None\<rparr>"

text \<open>
  A database that inserts every tuple it is given, starting at identifier \<open>start\<close>; one
  that reports one row fewer; one that rejects one particular statement.
\<close>

definition accepting_db :: "int \<Rightarrow> db_service" where
  "accepting_db start =
     \<lparr>openConnection = None,
      query = (\<lambda>sql vals. Inr \<lparr>affectedRows = length vals, insertId = start\<rparr>)\<rparr>"

definition short_db :: "int \<Rightarrow> db_service" where
  "short_db start =
     \<lparr>openConnection = None,
      query = (\<lambda>sql vals. Inr \<lparr>affectedRows = length vals - 1, insertId = start\<rparr>)\<rparr>"

definition rejecting_db :: "string \<Rightarrow> db_service" where
  "rejecting_db bad =
     \<lparr>openConnection = None,
      query = (\<lambda>sql vals. if sql = bad then Inl (Thrown ''query failed'')
                           else Inr \<lparr>affectedRows = 0, insertId = 0\<rparr>)\<rparr>"

text \<open>A cart of two items on a connected page, and a cart service that rejects deletions.\<close>

definition example_cart :: cart_page where
  "example_cart =
     \<lparr>items = [\<lparr>gameId = 7, name = ''Alpha'', price = 10, quantity = 1\<rparr>,
               \<lparr>gameId = 9, name = ''Beta'', price = 20, quantity = 2\<rparr>],
      shadowRoot = Some \<lparr>rows = [], foot = EmptyCart\<rparr>,
      events = []\<rparr>"

definition offline_cart_service :: cart_service where
  "offline_cart_service =
     \<lparr>deleteCartItem = (\<lambda>gid. Some (Thrown ''network error'')),
      updateCart = (\<lambda>its. None)\<rparr>"

section \<open>Properties of the store operations\<close>

lemma get_prop_set_prop: "get_prop (set_prop ob k v) k = Some v"
  by (induction ob) (auto simp: get_prop_def)

lemma get_prop_set_prop_other: "k' \<noteq> k \<Longrightarrow> get_prop (set_prop ob k v) k' = get_prop ob k'"
  by (induction ob) (auto simp: get_prop_def)

lemma assign_ids_other: "r \<notin> set rs \<Longrightarrow> assign_ids start i rs h r = h r"
  by (induction rs arbitrary: i h) auto

lemma assign_ids_nth:
  "distinct rs \<Longrightarrow> j < length rs \<Longrightarrow>
   assign_ids start i rs h (rs ! j) =
     set_prop (h (rs ! j)) ''id'' (VNum (js_add start (int (i + j))))"
proof (induction rs arbitrary: i h j)
  case Nil
  then show ?case by simp
next
  case (Cons r rs)
  show ?case
  proof (cases j)
    case 0
    with Cons.prems show ?thesis by (simp add: assign_ids_other)
  next
    case (Suc j')
    with Cons.prems have "rs ! j' \<noteq> r" by auto
    with Cons Suc show ?thesis by (simp add: add.assoc)
  qed
qed

text \<open>Within the safe range the rounded sum is the sum.\<close>

lemma js_add_exact: "\<bar>a + b\<bar> \<le> 2 ^ 53 \<Longrightarrow> js_add a b = a + b"
  by (simp add: js_add_def round_double_def)



lemma queries_append: "queries (xs @ ys) = queries xs @ queries ys"
  by (simp add: queries_def)

lemma positional_same_keys:
  "object_keys ob = columns \<Longrightarrow> positional columns (object_values ob) ob"
  by (auto simp: positional_def object_keys_def object_values_def zip_map_fst_snd)

section \<open>Seeder.seed\<close>

lemmas sample_defs = example_world_def example_store_def games_seeder_def fixed_generator_def
  accepting_db_def short_db_def generate_def

text \<open>
  With the connection acquired and a non-empty batch, \<open>seed\<close> is its \<^verbatim>\<open>try\<close> block
  followed by the release.
\<close>

lemma seed_nonempty:
  assumes "openConnection db = None"
    and "generate s count groups (heap w) = (Inr records, h)"
    and "records \<noteq> []"
  shows "seed s db count groups w =
     (fst (seed_try s db (hd records) records (emit Open w\<lparr>heap := h\<rparr>)),
      emit Release (snd (seed_try s db (hd records) records (emit Open w\<lparr>heap := h\<rparr>))))"
  using assms by (cases records) (simp_all add: seed_def emit_def split: prod.splits)

lemma seed_try_heap_mismatch:
  assumes "query db (insert_sql (table s) (object_keys (heap w first)))
             (map (\<lambda>r. object_values (heap w r)) records) = Inr result"
    and "affectedRows result \<noteq> length records"
  shows "fst (seed_try s db first records w) = Inl (FailedToInsert (length records))"
    and "heap (snd (seed_try s db first records w)) = heap w"
  using assms by (simp_all add: seed_try_def emit_def Let_def)

lemma seed_try_ok:
  assumes "query db (insert_sql (table s) (object_keys (heap w first)))
             (map (\<lambda>r. object_values (heap w r)) records) = Inr result"
    and "affectedRows result = length records"
  shows "fst (seed_try s db first records w) = Inr records"
    and "heap (snd (seed_try s db first records w)) = assign_ids (insertId result) 0 records (heap w)"
  using assms by (simp_all add: seed_try_def emit_def Let_def)

lemma seed_try_trace:
  "queries (trace (snd (seed_try s db first records w))) =
     queries (trace w) @ [(insert_sql (table s) (object_keys (heap w first)),
                           map (\<lambda>r. object_values (heap w r)) records)]"
  by (simp add: seed_try_def emit_def Let_def queries_def split: sum.splits)




subsection \<open>Release of the connection\<close>

text \<open>
  Once the \<^verbatim>\<open>try\<close> block is entered the connection is released exactly once, on every
  outcome of the insert.
\<close>

lemma seed_releases_nonempty:
  assumes "openConnection db = None"
    and "generate s count groups (heap w) = (Inr records, h)"
    and "records \<noteq> []"
  shows "\<exists>evs. trace (snd (seed s db count groups w)) = trace w @ Open # evs @ [Release] \<and>
               Open \<notin> set evs \<and> Release \<notin> set evs"
  using assms
  by (auto simp: seed_nonempty seed_try_def emit_def Let_def split: sum.splits)

text \<open>
  Claim C2 (release on all exit paths of \<open>seed\<close>) does not hold of the code: the generator
  call and the return for an empty batch come before the \<^verbatim>\<open>try\<close>, so neither path reaches
  the \<^verbatim>\<open>finally\<close>. For a generator that produces no record, and for one that throws, the
  trace ends with the connection acquired and never released.
\<close>

theorem seed_leaks_connection:
  "seed (games_seeder (fixed_generator [])) (accepting_db 101) 0 [] example_world =
     (Inr [], \<lparr>heap = example_store, trace = [Open, ConsoleLog (NoRecordsToSeed ''games'')]\<rparr>) \<and>
   seed (games_seeder throwing_generator) (accepting_db 101) 2 [] example_world =
     (Inl (Thrown ''generator failed''), \<lparr>heap = example_store, trace = [Open]\<rparr>)"
  by (simp add: seed_def emit_def sample_defs throwing_generator_def)

subsection \<open>Insert-count mismatch\<close>

text \<open>
  Claim C3: for a non-empty batch, when the affected-row count reported for the insert
  differs from the number of generated records, \<open>seed\<close> fails with the insert-count error
  (\<open>FailedToInsert\<close>) and the store is the one the generator left: no identifier has been
  assigned.
\<close>

theorem seed_count_mismatch:
  assumes "openConnection db = None"
    and "generate s count groups (heap w) = (Inr records, h)"
    and "records \<noteq> []"
    and "query db (insert_sql (table s) (object_keys (h (hd records))))
           (map (\<lambda>r. object_values (h r)) records) = Inr result"
    and "affectedRows result \<noteq> length records"
  shows "fst (seed s db count groups w) = Inl (FailedToInsert (length records)) \<and>
         heap (snd (seed s db count groups w)) = h"
  using assms
  by (simp add: seed_nonempty seed_try_heap_mismatch emit_def)

text \<open>
  Three records generated, two rows reported.
\<close>

theorem seed_count_mismatch_witness:
  "fst (seed (games_seeder (fixed_generator [0, 1, 2])) (short_db 101) 3 [] example_world)
     = Inl (FailedToInsert 3) \<and>
   heap (snd (seed (games_seeder (fixed_generator [0, 1, 2])) (short_db 101) 3 [] example_world))
     = example_store"
proof -
  let ?s = "games_seeder (fixed_generator [0, 1, 2])"
  let ?res = "\<lparr>affectedRows = 2, insertId = 101\<rparr>"
  have a: "openConnection (short_db 101) = None"
    by (simp add: short_db_def)
  have b: "generate ?s 3 [] (heap example_world) = (Inr [0, 1, 2], example_store)"
    by (simp add: sample_defs)
  have c: "[0, 1, 2] \<noteq> ([] :: ref list)"
    by simp
  have d: "query (short_db 101)
             (insert_sql (table ?s) (object_keys (example_store (hd [0, 1, 2]))))
             (map (\<lambda>r. object_values (example_store r)) [0, 1, 2]) = Inr ?res"
    by (simp add: short_db_def)
  have e: "affectedRows ?res \<noteq> length [0 :: ref, 1, 2]"
    by simp
  from seed_count_mismatch [OF a b c d e] show ?thesis
    by simp
qed

subsection \<open>Identifier assignment\<close>

text \<open>
  Claim C4 as stated promises exactly \<open>count\<close> records, record \<open>i\<close> carrying
  \<open>insertId + i\<close>. The code compares the affected rows with the number of generated
  records, not with \<open>count\<close>: a generator with one record, asked for three, gives a
  successful call that returns one record. A batch that lists one object twice leaves it
  with the identifier of its last position. And the sum is a sum of numbers: from
  \<open>insertId = 2 ^ 53\<close> on, three records receive 9007199254740992, 9007199254740992 and
  9007199254740994.
\<close>

theorem seed_returns_count_counterexample:
  "generate (games_seeder (fixed_generator [0])) 3 [] (heap example_world)
     = (Inr [0], example_store) \<and>
   fst (seed (games_seeder (fixed_generator [0])) (accepting_db 101) 3 [] example_world)
     = Inr [0] \<and>
   int (length [0 :: ref]) \<noteq> 3 \<and>
   fst (seed (games_seeder (fixed_generator [0, 0])) (accepting_db 101) 2 [] example_world)
     = Inr [0, 0] \<and>
   get_prop (heap (snd (seed (games_seeder (fixed_generator [0, 0])) (accepting_db 101) 2 []
                          example_world)) ([0, 0] ! 0)) ''id''
     = Some (VNum 102) \<and>
   map (\<lambda>r. get_prop (heap (snd (seed (games_seeder (fixed_generator [0, 1, 2]))
                                     (accepting_db 9007199254740992) 3 [] example_world)) r)
                ''id'')
       [0, 1, 2]
     = [Some (VNum 9007199254740992), Some (VNum 9007199254740992),
        Some (VNum 9007199254740994)]"
  by (simp add: seed_def seed_try_def emit_def get_prop_def sample_defs
      object_keys_def object_values_def js_add_def round_double_def bit_length.simps)

text \<open>
  Claim C4, amended: for every non-empty generated batch whose insert succeeds with an
  affected-row count equal to the number of generated records, \<open>seed\<close> returns exactly the
  generated records (as many as the generator produced); when these are pairwise distinct
  objects, record \<open>i\<close> carries the number \<open>insertId + i\<close>, which is the integer
  \<open>insertId + i\<close> whenever that integer has magnitude at most \<open>2 ^ 53\<close>: there the
  identifiers are a contiguous ascending run in insertion order.
\<close>

theorem seed_assigns_ids:
  assumes "openConnection db = None"
    and "generate s count groups (heap w) = (Inr records, h)"
    and "records \<noteq> []"
    and "query db (insert_sql (table s) (object_keys (h (hd records))))
           (map (\<lambda>r. object_values (h r)) records) = Inr result"
    and "affectedRows result = length records"
  shows "fst (seed s db count groups w) = Inr records \<and>
         (distinct records \<longrightarrow>
            (\<forall>i < length records.
               get_prop (heap (snd (seed s db count groups w)) (records ! i)) ''id''
                 = Some (VNum (js_add (insertId result) (int i))) \<and>
               (\<bar>insertId result + int i\<bar> \<le> 2 ^ 53 \<longrightarrow>
                  get_prop (heap (snd (seed s db count groups w)) (records ! i)) ''id''
                    = Some (VNum (insertId result + int i)))))"
  using assms
  by (simp add: seed_nonempty seed_try_ok emit_def assign_ids_nth get_prop_set_prop
      js_add_exact)

text \<open>
  Starting identifier 101 and three records: identifiers 101, 102, 103.
\<close>

theorem seed_assigns_ids_witness:
  "fst (seed (games_seeder (fixed_generator [0, 1, 2])) (accepting_db 101) 3 [] example_world)
     = Inr [0, 1, 2] \<and>
   map (\<lambda>r. get_prop (heap (snd (seed (games_seeder (fixed_generator [0, 1, 2]))
                                     (accepting_db 101) 3 [] example_world)) r) ''id'')
       [0, 1, 2]
     = [Some (VNum 101), Some (VNum 102), Some (VNum 103)]"
proof -
  let ?s = "games_seeder (fixed_generator [0, 1, 2])"
  let ?res = "\<lparr>affectedRows = 3, insertId = 101\<rparr>"
  have a: "openConnection (accepting_db 101) = None"
    by (simp add: accepting_db_def)
  have b: "generate ?s 3 [] (heap example_world) = (Inr [0, 1, 2], example_store)"
    by (simp add: sample_defs)
  have c: "[0, 1, 2] \<noteq> ([] :: ref list)"
    by simp
  have e: "query (accepting_db 101)
             (insert_sql (table ?s) (object_keys (example_store (hd [0, 1, 2]))))
             (map (\<lambda>r. object_values (example_store r)) [0, 1, 2]) = Inr ?res"
    by (simp add: accepting_db_def)
  have f: "affectedRows ?res = length [0 :: ref, 1, 2]"
    by simp
  have d: "distinct [0 :: ref, 1, 2]"
    by simp
  have g: "\<bar>insertId ?res + int i\<bar> \<le> 2 ^ 53" if "i < 3" for i
    using that by simp
  from seed_assigns_ids [OF a b c e f] d g show ?thesis
    by (simp add: All_less_Suc js_add_exact)
qed

subsection \<open>The empty batch\<close>

text \<open>
  Claim C5 as stated covers every call with \<open>count = 0\<close>. The code tests the length of the
  generated batch only: a generator that ignores the count and yields a record makes
  \<open>seed 0\<close> issue the insert and return that record.
\<close>

theorem seed_count_zero_counterexample:
  "fst (seed (games_seeder (fixed_generator [0])) (accepting_db 101) 0 [] example_world)
     = Inr [0] \<and>
   queries (trace (snd (seed (games_seeder (fixed_generator [0])) (accepting_db 101) 0 []
                          example_world)))
     = [(insert_sql ''games'' [''name'', ''price''], [[VStr ''Alpha'', VNum 10]])]"
  by (simp add: seed_def seed_try_def emit_def queries_def sample_defs
      object_keys_def object_values_def)

text \<open>
  Claim C5, amended: whenever the selected generator produces zero records (for
  \<open>count = 0\<close>: when the generator produces \<open>count\<close> records), \<open>seed\<close> returns the empty
  sequence without error, and the only effects are the acquired connection and the console
  line: no statement is sent.
\<close>

theorem seed_no_records:
  assumes "openConnection db = None"
    and "generate s count groups (heap w) = (Inr records, h)"
    and "records = [] \<or> (count = 0 \<and> int (length records) = count)"
  shows "seed s db count groups w =
          (Inr [], w\<lparr>heap := h, trace := trace w @ [Open, ConsoleLog (NoRecordsToSeed (table s))]\<rparr>)"
proof -
  from assms(3) have "records = []" by auto
  with assms(1,2) show ?thesis by (simp add: seed_def emit_def)
qed

theorem seed_no_records_witness:
  "seed (games_seeder (fixed_generator [])) (accepting_db 101) 0 [] example_world =
     (Inr [], \<lparr>heap = example_store, trace = [Open, ConsoleLog (NoRecordsToSeed ''games'')]\<rparr>)"
proof -
  let ?s = "games_seeder (fixed_generator [])"
  have a: "openConnection (accepting_db 101) = None"
    by (simp add: accepting_db_def)
  have b: "generate ?s 0 [] (heap example_world) = (Inr [], example_store)"
    by (simp add: sample_defs)
  have c: "([] :: ref list) = [] \<or> ((0 :: int) = 0 \<and> int (length ([] :: ref list)) = 0)"
    by simp
  from seed_no_records [OF a b c] show ?thesis
    by (simp add: example_world_def games_seeder_def)
qed

subsection \<open>Development mode\<close>

text \<open>
  Claim C6: for a seeder that does not override \<open>getRecordsDev\<close>, a \<open>seed\<close> call in
  development mode has the same outcome (result, store and effects) as the same call with
  the flag unset.
\<close>

theorem dev_mode_falls_back:
  assumes "getRecordsDev_override s = None"
  shows "seed (s\<lparr>devMode := True\<rparr>) db count groups w = seed (s\<lparr>devMode := False\<rparr>) db count groups w"
proof -
  have g: "generate (s\<lparr>devMode := True\<rparr>) = generate (s\<lparr>devMode := False\<rparr>)"
    using assms by (simp add: generate_def getRecordsDev_def)
  have t: "seed_try (s\<lparr>devMode := b\<rparr>) = seed_try s" for b
    by (intro ext) (simp add: seed_try_def)
  have n: "table (s\<lparr>devMode := b\<rparr>) = table s" for b
    by simp
  show ?thesis
    unfolding seed_def g t n ..
qed

theorem dev_mode_falls_back_witness:
  "getRecordsDev_override (games_seeder (fixed_generator [0, 1])) = None \<and>
   seed (games_seeder (fixed_generator [0, 1])\<lparr>devMode := True\<rparr>) (accepting_db 101) 2 []
      example_world
     = seed (games_seeder (fixed_generator [0, 1])\<lparr>devMode := False\<rparr>) (accepting_db 101) 2 []
         example_world"
proof -
  have a: "getRecordsDev_override (games_seeder (fixed_generator [0, 1])) = None"
    by (simp add: games_seeder_def)
  from dev_mode_falls_back [OF a] a show ?thesis
    by simp
qed

subsection \<open>Columns and value tuples of the insert\<close>

text \<open>
  Claim C7 as stated asks only that the records share the first record's column set. The
  tuples are \<^verbatim>\<open>Object.values(record)\<close>, each in its own record's key order: a record with
  the same two columns in the other order contributes its values in that other order, under
  the first record's column list.
\<close>

theorem seed_insert_columns_counterexample:
  "set (object_keys (example_store 3)) = set (object_keys (example_store 0)) \<and>
   queries (trace (snd (seed (games_seeder (fixed_generator [0, 3])) (accepting_db 101) 2 []
                          example_world)))
     = [(insert_sql ''games'' [''name'', ''price''],
         [[VStr ''Alpha'', VNum 10], [VNum 40, VStr ''Delta'']])] \<and>
   \<not> positional [''name'', ''price''] [VNum 40, VStr ''Delta''] (example_store 3)"
  by (simp add: seed_def seed_try_def emit_def queries_def sample_defs positional_def
      object_keys_def object_values_def insert_commute)

text \<open>
  Claim C7, amended: for every non-empty batch, the one insert issued by \<open>seed\<close> has the
  first record's keys as its column list and one tuple per record, the record's values in
  the record's own key order; for each record whose key sequence equals the first record's
  (same keys in the same order), that tuple holds its values positionally in the column
  order.
\<close>

theorem seed_insert_columns:
  assumes "openConnection db = None"
    and "generate s count groups (heap w) = (Inr records, h)"
    and "records \<noteq> []"
  shows "queries (trace (snd (seed s db count groups w))) =
           queries (trace w) @
           [(insert_sql (table s) (object_keys (h (hd records))),
             map (\<lambda>r. object_values (h r)) records)] \<and>
         (\<forall>r \<in> set records. object_keys (h r) = object_keys (h (hd records)) \<longrightarrow>
            positional (object_keys (h (hd records))) (object_values (h r)) (h r))"
  using assms
  by (simp add: seed_nonempty seed_try_trace emit_def queries_append positional_same_keys)
     (simp add: queries_def)

theorem seed_insert_columns_witness:
  "queries (trace (snd (seed (games_seeder (fixed_generator [0, 1])) (accepting_db 101) 2 []
                          example_world)))
     = [(insert_sql ''games'' [''name'', ''price''],
         [[VStr ''Alpha'', VNum 10], [VStr ''Beta'', VNum 20]])] \<and>
   positional [''name'', ''price''] [VStr ''Beta'', VNum 20] (example_store 1)"
proof -
  let ?s = "games_seeder (fixed_generator [0, 1])"
  have a: "openConnection (accepting_db 101) = None"
    by (simp add: accepting_db_def)
  have b: "generate ?s 2 [] (heap example_world) = (Inr [0, 1], example_store)"
    by (simp add: sample_defs)
  have c: "[0, 1] \<noteq> ([] :: ref list)"
    by simp
  from seed_insert_columns [OF a b c] show ?thesis
    by (simp add: example_world_def example_store_def games_seeder_def queries_def
        object_keys_def object_values_def)
qed

subsection \<open>Upstream record groups\<close>




section \<open>Seeder.truncate\<close>

text \<open>
  When every statement succeeds, enforcement is disabled, the table emptied, enforcement
  enabled again, and the connection released.
\<close>

lemma truncate_all_succeed:
  assumes "openConnection db = None"
    and "query db ''SET FOREIGN_KEY_CHECKS = 0'' [] = Inr r0"
    and "query db (''TRUNCATE TABLE `'' @ table s @ ''`'') [] = Inr r1"
    and "query db ''SET FOREIGN_KEY_CHECKS = 1'' [] = Inr r2"
  shows "truncate s db w =
     (Inr (), w\<lparr>trace := trace w @
        [Open, Query ''SET FOREIGN_KEY_CHECKS = 0'' [],
         Query (''TRUNCATE TABLE `'' @ table s @ ''`'') [],
         Query ''SET FOREIGN_KEY_CHECKS = 1'' [], Release]\<rparr>)"
  using assms by (simp add: truncate_def emit_def)

text \<open>
  When the row-removal statement is rejected, the enabling statement is never sent.
\<close>

lemma truncate_delete_fails:
  assumes "openConnection db = None"
    and "query db ''SET FOREIGN_KEY_CHECKS = 0'' [] = Inr r0"
    and "query db (''TRUNCATE TABLE `'' @ table s @ ''`'') [] = Inl e"
  shows "truncate s db w =
     (Inl e, w\<lparr>trace := trace w @
        [Open, Query ''SET FOREIGN_KEY_CHECKS = 0'' [],
         Query (''TRUNCATE TABLE `'' @ table s @ ''`'') [], Release]\<rparr>)"
  using assms by (simp add: truncate_def emit_def)

lemma truncate_releases:
  assumes "openConnection db = None"
  shows "\<exists>evs. trace (snd (truncate s db w)) = trace w @ Open # evs @ [Release] \<and>
               Open \<notin> set evs \<and> Release \<notin> set evs"
  using assms by (auto simp: truncate_def emit_def Let_def split: sum.splits)

text \<open>
  Claim C1 (enforcement is always re-enabled, also when the row-removal step raises) does
  not hold of the code: the enabling statement is the last statement of the \<^verbatim>\<open>try\<close> block
  and the \<^verbatim>\<open>finally\<close> only releases the connection. With a database that rejects the
  \<^verbatim>\<open>TRUNCATE\<close>, the disabling statement is sent, the enabling one is not, and the
  connection goes back to the pool.
\<close>

theorem truncate_leaves_checks_disabled:
  "truncate (games_seeder (fixed_generator [])) (rejecting_db ''TRUNCATE TABLE `games`'')
      example_world =
     (Inl (Thrown ''query failed''),
      \<lparr>heap = example_store,
       trace = [Open, Query ''SET FOREIGN_KEY_CHECKS = 0'' [],
                Query ''TRUNCATE TABLE `games`'' [], Release]\<rparr>)"
  by (simp add: truncate_def emit_def rejecting_db_def games_seeder_def example_world_def)

section \<open>GameService.getGames\<close>

lemma filters_minPrice_zero:
  "getGames_filters (options\<lparr>minPrice := Some 0\<rparr>) = getGames_filters (options\<lparr>minPrice := None\<rparr>)"
  by (simp add: getGames_filters_def minPrice_filter_def maxPrice_filter_def tags_filter_def)

lemma filters_maxPrice_zero:
  "getGames_filters (options\<lparr>maxPrice := Some 0\<rparr>) = getGames_filters (options\<lparr>maxPrice := None\<rparr>)"
  by (simp add: getGames_filters_def minPrice_filter_def maxPrice_filter_def tags_filter_def)

text \<open>
  Claim C9: a \<open>minPrice\<close> of zero (respectively a \<open>maxPrice\<close> of zero) adds no price
  filter: the WHERE clause, the join, and the text and parameter list of both statements are
  the same as when the field is left out.
\<close>

theorem zero_price_bound_is_no_bound:
  "getGames_filters (options\<lparr>minPrice := Some 0\<rparr>) = getGames_filters (options\<lparr>minPrice := None\<rparr>) \<and>
   getGames_query (options\<lparr>minPrice := Some 0\<rparr>) = getGames_query (options\<lparr>minPrice := None\<rparr>) \<and>
   getGames_countQuery (options\<lparr>minPrice := Some 0\<rparr>) = getGames_countQuery (options\<lparr>minPrice := None\<rparr>) \<and>
   getGames_filters (options\<lparr>maxPrice := Some 0\<rparr>) = getGames_filters (options\<lparr>maxPrice := None\<rparr>) \<and>
   getGames_query (options\<lparr>maxPrice := Some 0\<rparr>) = getGames_query (options\<lparr>maxPrice := None\<rparr>) \<and>
   getGames_countQuery (options\<lparr>maxPrice := Some 0\<rparr>) = getGames_countQuery (options\<lparr>maxPrice := None\<rparr>)"
  by (simp add: getGames_query_def getGames_countQuery_def filters_minPrice_zero
      filters_maxPrice_zero sortByQuery_def)

section \<open>CartPageComponent.removeItem\<close>

lemma render_items: "items (render p) = items p"
  by (simp add: render_def split: option.splits)

lemma render_events: "events (render p) = events p"
  by (simp add: render_def split: option.splits)

lemma render_shadowRoot:
  "shadowRoot (render p) = map_option (\<lambda>_. view_of (items p)) (shadowRoot p)"
  by (simp add: render_def split: option.splits)

lemma updateBackendCart_fields:
  "items (updateBackendCart svc p) = items p"
  "shadowRoot (updateBackendCart svc p) = shadowRoot p"
  "events (updateBackendCart svc p) =
     events p @ UpdateCartCall (items p) #
       (case updateCart svc (items p) of None \<Rightarrow> []
        | Some e \<Rightarrow> [ConsoleError ''Fout bij bijwerken van winkelwagen:'' e])"
  by (simp_all add: updateBackendCart_def Let_def split: option.splits)

text \<open>
  Claim C10 as stated concludes that on the error path the local cart no longer reflects
  the backend cart. After the caught rejection \<open>removeItem\<close> goes on to
  \<open>updateBackendCart\<close>, which sends the shortened list itself: with a cart service that
  rejects the deletion and accepts the update, the last thing the backend received and
  accepted is exactly the local list.
\<close>

theorem removeItem_backend_counterexample:
  "deleteCartItem offline_cart_service (gameId (items example_cart ! 0))
     = Some (Thrown ''network error'') \<and>
   items (removeItem offline_cart_service 0 example_cart)
     = [\<lparr>gameId = 9, name = ''Beta'', price = 20, quantity = 2\<rparr>] \<and>
   events (removeItem offline_cart_service 0 example_cart)
     = [DeleteCartItemCall 7,
        ConsoleError ''Fout bij verwijderen van item uit winkelwagen:'' (Thrown ''network error''),
        UpdateCartCall [\<lparr>gameId = 9, name = ''Beta'', price = 20, quantity = 2\<rparr>]] \<and>
   backend_accepted_local offline_cart_service (removeItem offline_cart_service 0 example_cart)"
  by (simp add: removeItem_def updateBackendCart_def render_def backend_accepted_local_def
      example_cart_def offline_cart_service_def)

text \<open>
  Claim C10, amended: for every valid index, \<open>removeItem\<close> removes the item at that index
  from the local list and renders the shortened list, whatever \<open>deleteCartItem\<close> answers; a
  rejection is caught and contributes a console line only. On that path too the shortened
  list is then sent with \<open>updateCart\<close>, and the backend has accepted the local cart exactly
  when that call resolves: only when the update is rejected as well is the local list left
  without the backend having accepted it.
\<close>

theorem removeItem_local_removal:
  assumes "index < length (items p)"
  shows "items (removeItem svc index p) = take index (items p) @ drop (Suc index) (items p) \<and>
         shadowRoot (removeItem svc index p) =
           map_option (\<lambda>_. view_of (take index (items p) @ drop (Suc index) (items p)))
             (shadowRoot p) \<and>
         events (removeItem svc index p) =
           events p @
           DeleteCartItemCall (gameId (items p ! index)) #
           (case deleteCartItem svc (gameId (items p ! index)) of
              None \<Rightarrow> []
            | Some e \<Rightarrow> [ConsoleError ''Fout bij verwijderen van item uit winkelwagen:'' e]) @
           UpdateCartCall (take index (items p) @ drop (Suc index) (items p)) #
           (case updateCart svc (take index (items p) @ drop (Suc index) (items p)) of
              None \<Rightarrow> []
            | Some e \<Rightarrow> [ConsoleError ''Fout bij bijwerken van winkelwagen:'' e]) \<and>
         (backend_accepted_local svc (removeItem svc index p) \<longleftrightarrow>
            updateCart svc (take index (items p) @ drop (Suc index) (items p)) = None)"
proof -
  let ?its = "take index (items p) @ drop (Suc index) (items p)"
  let ?p' = "removeItem svc index p"
  have i: "items ?p' = ?its"
    by (simp add: removeItem_def Let_def render_items updateBackendCart_fields
        split: option.splits)
  have r: "shadowRoot ?p' = map_option (\<lambda>_. view_of ?its) (shadowRoot p)"
    using assms
    by (simp add: removeItem_def Let_def render_items render_shadowRoot
        updateBackendCart_fields split: option.splits)
  have e: "events ?p' =
           events p @
           DeleteCartItemCall (gameId (items p ! index)) #
           (case deleteCartItem svc (gameId (items p ! index)) of
              None \<Rightarrow> []
            | Some e \<Rightarrow> [ConsoleError ''Fout bij verwijderen van item uit winkelwagen:'' e]) @
           UpdateCartCall ?its #
           (case updateCart svc ?its of
              None \<Rightarrow> []
            | Some e \<Rightarrow> [ConsoleError ''Fout bij bijwerken van winkelwagen:'' e])"
    using assms
    by (simp add: removeItem_def Let_def render_events updateBackendCart_fields
        split: option.splits)
  have b: "backend_accepted_local svc ?p' \<longleftrightarrow> updateCart svc ?its = None"
    unfolding backend_accepted_local_def e i
    by (simp split: option.splits)
  from i r e b show ?thesis
    by simp
qed

text \<open>
  A cart of two items, the first removed while the cart service rejects the deletion.
\<close>

theorem removeItem_local_removal_witness:
  "items (removeItem offline_cart_service 0 example_cart)
     = [\<lparr>gameId = 9, name = ''Beta'', price = 20, quantity = 2\<rparr>] \<and>
   shadowRoot (removeItem offline_cart_service 0 example_cart)
     = Some \<lparr>rows = [\<lparr>gameId = 9, name = ''Beta'', price = 20, quantity = 2\<rparr>],
             foot = Total 40\<rparr> \<and>
   events (removeItem offline_cart_service 0 example_cart)
     = [DeleteCartItemCall 7,
        ConsoleError ''Fout bij verwijderen van item uit winkelwagen:'' (Thrown ''network error''),
        UpdateCartCall [\<lparr>gameId = 9, name = ''Beta'', price = 20, quantity = 2\<rparr>]]"
proof -
  have a: "0 < length (items example_cart)"
    by (simp add: example_cart_def)
  from removeItem_local_removal [OF a, of offline_cart_service] show ?thesis
    by (simp add: example_cart_def offline_cart_service_def view_of_def)
qed

end
